theory Spec2Isabelle
  imports Main
begin

section \<open>JavaScript values\<close>

text \<open>
  The arguments of the Mediator's operations, the request bodies it builds and the payloads
  the remote endpoint returns are JavaScript values. A number is kept as the text that
  JavaScript's own conversion to a string gives for it (\<open>''42''\<close>, \<open>''0.5''\<close>,
  \<open>''NaN''\<close>), so that no floating point arithmetic is needed; an object is the list
  of its own properties in insertion order.
\<close>

datatype jsval =
    Undefined
  | JNull
  | JBool bool
  | JNum string
  | JStr string
  | JArr "jsval list"
  | JObj "(string \<times> jsval) list"

text \<open>Truthiness, as tested by \<^verbatim>\<open>if (x)\<close> and \<^verbatim>\<open>!x\<close>.\<close>

fun js_truthy :: "jsval \<Rightarrow> bool" where
  "js_truthy Undefined = False"
| "js_truthy JNull = False"
| "js_truthy (JBool b) = b"
| "js_truthy (JNum n) = (n \<noteq> ''0'' \<and> n \<noteq> ''NaN'')"
| "js_truthy (JStr s) = (s \<noteq> [])"
| "js_truthy (JArr xs) = True"
| "js_truthy (JObj kvs) = True"

text \<open>The assignment \<^verbatim>\<open>obj[k] = v\<close>: an existing property keeps its place.\<close>

fun js_set :: "(string \<times> jsval) list \<Rightarrow> string \<Rightarrow> jsval \<Rightarrow> (string \<times> jsval) list" where
  "js_set [] k v = [(k, v)]"
| "js_set ((k', v') # kvs) k v =
     (if k' = k then (k, v) # kvs else (k', v') # js_set kvs k v)"

text \<open>
  The read \<^verbatim>\<open>x.k\<close> of a property that no prototype defines, on a value that is neither
  \<^verbatim>\<open>undefined\<close> nor \<^verbatim>\<open>null\<close>: an object's own property, \<^verbatim>\<open>undefined\<close> otherwise.
\<close>

fun js_get :: "jsval \<Rightarrow> string \<Rightarrow> jsval" where
  "js_get (JObj kvs) k = (case map_of kvs k of None \<Rightarrow> Undefined | Some v \<Rightarrow> v)"
| "js_get _ k = Undefined"

fun has_key :: "jsval \<Rightarrow> string \<Rightarrow> bool" where
  "has_key (JObj kvs) k = (k \<in> set (map fst kvs))"
| "has_key _ k = False"

section \<open>Errors\<close>

datatype error = Error string | TypeError string

fun message :: "error \<Rightarrow> string" where
  "message (Error m) = m"
| "message (TypeError m) = m"

text \<open>
  \<^verbatim>\<open>Object.keys(x).length\<close>: \<^verbatim>\<open>Object.keys\<close> throws a TypeError on \<^verbatim>\<open>undefined\<close> and
  \<^verbatim>\<open>null\<close>, lists the own properties of an object, the indices of an array and of a
  string, and nothing for a number or a boolean.
\<close>

fun Object_keys_length :: "jsval \<Rightarrow> error + nat" where
  "Object_keys_length Undefined = Inl (TypeError ''Cannot convert undefined or null to object'')"
| "Object_keys_length JNull = Inl (TypeError ''Cannot convert undefined or null to object'')"
| "Object_keys_length (JBool b) = Inr 0"
| "Object_keys_length (JNum n) = Inr 0"
| "Object_keys_length (JStr s) = Inr (length s)"
| "Object_keys_length (JArr xs) = Inr (length xs)"
| "Object_keys_length (JObj kvs) = Inr (length kvs)"

text \<open>
  The conversion of a template literal, \<^verbatim>\<open>`${x}`\<close>. An array joins its elements with
  commas, \<^verbatim>\<open>undefined\<close> and \<^verbatim>\<open>null\<close> elements as empty strings. A plain object
  gives \<^verbatim>\<open>[object Object]\<close>, unless it has an own property \<^verbatim>\<open>toString\<close>: in a value
  that came from JSON that property is not callable, and the conversion throws a
  TypeError (\<open>None\<close>).
\<close>

fun join_comma :: "string option list \<Rightarrow> string option" where
  "join_comma [] = Some []"
| "join_comma [x] = x"
| "join_comma (x # y # ys) =
     (case x of None \<Rightarrow> None
      | Some s \<Rightarrow> (case join_comma (y # ys) of None \<Rightarrow> None | Some t \<Rightarrow> Some (s @ '','' @ t)))"

fun js_String :: "jsval \<Rightarrow> string option" where
  "js_String Undefined = Some ''undefined''"
| "js_String JNull = Some ''null''"
| "js_String (JBool b) = Some (if b then ''true'' else ''false'')"
| "js_String (JNum n) = Some n"
| "js_String (JStr s) = Some s"
| "js_String (JArr xs) =
     join_comma (map (\<lambda>x. if x = Undefined \<or> x = JNull then Some [] else js_String x) xs)"
| "js_String (JObj kvs) =
     (if ''toString'' \<in> set (map fst kvs) then None else Some ''[object Object]'')"

section \<open>The Mediator: dispatch and error classification (api.js)\<close>

text \<open>
  A request as handed to the HTTP client: \<^verbatim>\<open>config.data\<close> is set only when the data
  is truthy.
\<close>

record request =
  req_method :: string
  req_url :: string
  req_headers :: "(string \<times> jsval) list"
  req_data :: "jsval option"

text \<open>
  The HTTP client either resolves with a response, of which \<^verbatim>\<open>request\<close> returns the
  \<^verbatim>\<open>data\<close>, or rejects with an error that has a \<^verbatim>\<open>message\<close> and, when the remote
  endpoint answered (with a status outside 2xx), a \<^verbatim>\<open>response\<close>.
\<close>

record response =
  resp_status :: nat
  resp_data :: jsval

datatype axios_result = Resolved jsval | Rejected "response option" string

text \<open>The fifteen operations of the Mediator, with their arguments.\<close>

datatype operation =
    UpsertUser jsval jsval jsval
  | DeleteUser jsval jsval
  | UpsertAccount jsval jsval jsval
  | DeleteAccount jsval jsval
  | AddUsersToAccount jsval "jsval list"
  | RemoveUsersFromAccount jsval "jsval list"
  | TrackEvent jsval jsval jsval jsval
  | GetEvents
  | GetUserProperties
  | GetAccountProperties
  | GetUserSegments
  | GetAccountSegments
  | LinkUserToAccount jsval jsval
  | ValidateApiKey
  | GetTrackingSnippet

text \<open>
  The environment of one invocation. The Configuration Store (config.js) is not among the
  sources: what its two reads return is a parameter, \<open>apiKey\<close> for
  \<^verbatim>\<open>getConfig('apiKey')\<close> and \<open>configured\<close> for \<^verbatim>\<open>isConfigured()\<close>. The HTTP client and
  the remote endpoint behind it are the function \<open>axios\<close>. The built-in \<^verbatim>\<open>JSON.parse\<close>
  is the function \<open>JSON_parse\<close>, \<open>None\<close> where it throws a SyntaxError.

  What a command does with the payload of a call that succeeded is the function
  \<open>render\<close>: it prints the payload as JSON (under \<^verbatim>\<open>--json\<close>) or as a message, a request
  identifier or a table, through \<^verbatim>\<open>console.log\<close> only, and it can throw on the way
  (reading \<^verbatim>\<open>data.meta\<close> or \<^verbatim>\<open>data.data\<close> of a \<^verbatim>\<open>null\<close> payload is a TypeError). It
  gives the lines printed and the error thrown, if any. It calls no operation and sends
  nothing. Every property below is proved for all such functions.
\<close>

record env =
  apiKey :: jsval
  configured :: bool
  axios :: "request \<Rightarrow> axios_result"
  JSON_parse :: "string \<Rightarrow> jsval option"
  render :: "operation \<Rightarrow> jsval \<Rightarrow> string list \<times> error option"

definition BASE_URL :: string where
  "BASE_URL = ''https://api.journy.io''"

definition getHeaders :: "env \<Rightarrow> error + (string \<times> jsval) list" where
  "getHeaders e =
     (if \<not> js_truthy (apiKey e)
      then Inl (Error ''API key not configured. Run: journy config set --api-key YOUR_KEY'')
      else Inr [(''X-Api-Key'', apiKey e), (''Content-Type'', JStr ''application/json'')])"

text \<open>
  The \<^verbatim>\<open>catch\<close> block of \<^verbatim>\<open>request\<close>, applied to the caught error's
  \<^verbatim>\<open>response\<close> and \<^verbatim>\<open>message\<close>. The tests are made in the order of the source:
  the body's message first, then status 401, then status 429.
\<close>

definition ApiError :: "string \<Rightarrow> error" where
  "ApiError m = Error (''API Error: '' @ m)"

definition UnauthorizedError :: error where
  "UnauthorizedError = Error ''Unauthorized: Invalid API key''"

definition RateLimitedError :: error where
  "RateLimitedError = Error ''Rate limit exceeded (1800 requests/min)''"

definition RequestFailedError :: "string \<Rightarrow> error" where
  "RequestFailedError m = Error (''Request failed: '' @ m)"

definition response_message :: "response option \<Rightarrow> jsval" where
  "response_message r =
     (case r of
        None \<Rightarrow> Undefined
      | Some resp \<Rightarrow>
          (if resp_data resp = Undefined \<or> resp_data resp = JNull then Undefined
           else js_get (resp_data resp) ''message''))"

definition request_catch :: "response option \<Rightarrow> string \<Rightarrow> error" where
  "request_catch r msg =
     (if js_truthy (response_message r) then
        (case js_String (response_message r) of
           None \<Rightarrow> TypeError ''Cannot convert object to primitive value''
         | Some m \<Rightarrow> ApiError m)
      else if map_option resp_status r = Some 401 then UnauthorizedError
      else if map_option resp_status r = Some 429 then RateLimitedError
      else RequestFailedError msg)"

text \<open>
  \<^verbatim>\<open>request(method, endpoint, data = null)\<close> returns the outcome together with the
  requests handed to the HTTP client. \<^verbatim>\<open>getHeaders()\<close> is called inside the
  \<^verbatim>\<open>try\<close> block, so its error goes through the \<^verbatim>\<open>catch\<close> block as well.
\<close>

definition request :: "env \<Rightarrow> string \<Rightarrow> string \<Rightarrow> jsval \<Rightarrow> (error + jsval) \<times> request list" where
  "request e method endpoint data0 =
     (let data = (if data0 = Undefined then JNull else data0) in
      case getHeaders e of
        Inl err \<Rightarrow> (Inl (request_catch None (message err)), [])
      | Inr headers \<Rightarrow>
          (let config = \<lparr>req_method = method, req_url = BASE_URL @ endpoint,
                         req_headers = headers,
                         req_data = (if js_truthy data then Some data else None)\<rparr>
           in case axios e config of
                Resolved d \<Rightarrow> (Inr d, [config])
              | Rejected r msg \<Rightarrow> (Inl (request_catch r msg), [config])))"

section \<open>The Mediator: the operations (api.js)\<close>

text \<open>
  Each operation builds its data and calls \<^verbatim>\<open>request\<close>; the construction of the data
  is a definition of its own, \<open>_data\<close>. A parameter with the default \<^verbatim>\<open>{}\<close> takes it
  when the argument is \<^verbatim>\<open>undefined\<close>.
\<close>

definition upsertUser_data :: "jsval \<Rightarrow> jsval \<Rightarrow> jsval \<Rightarrow> error + jsval" where
  "upsertUser_data userId email properties0 =
     (let properties = (if properties0 = Undefined then JObj [] else properties0);
          identification = [(''userId'', userId)];
          identification =
            (if js_truthy email then js_set identification ''email'' email else identification);
          data = [(''identification'', JObj identification)]
      in case Object_keys_length properties of
           Inl err \<Rightarrow> Inl err
         | Inr n \<Rightarrow> Inr (JObj (if n > 0 then js_set data ''properties'' properties else data)))"

definition upsertUser :: "env \<Rightarrow> jsval \<Rightarrow> jsval \<Rightarrow> jsval \<Rightarrow> (error + jsval) \<times> request list" where
  "upsertUser e userId email properties =
     (case upsertUser_data userId email properties of
        Inl err \<Rightarrow> (Inl err, [])
      | Inr data \<Rightarrow> request e ''POST'' ''/users/upsert'' data)"

definition deleteUser_data :: "jsval \<Rightarrow> jsval \<Rightarrow> jsval" where
  "deleteUser_data userId email =
     (let identification = [];
          identification =
            (if js_truthy userId then js_set identification ''userId'' userId else identification);
          identification =
            (if js_truthy email then js_set identification ''email'' email else identification)
      in JObj [(''identification'', JObj identification)])"

definition deleteUser :: "env \<Rightarrow> jsval \<Rightarrow> jsval \<Rightarrow> (error + jsval) \<times> request list" where
  "deleteUser e userId email = request e ''DELETE'' ''/users'' (deleteUser_data userId email)"

definition upsertAccount_data :: "jsval \<Rightarrow> jsval \<Rightarrow> jsval \<Rightarrow> error + jsval" where
  "upsertAccount_data accountId domain properties0 =
     (let properties = (if properties0 = Undefined then JObj [] else properties0);
          identification = [(''accountId'', accountId)];
          identification =
            (if js_truthy domain then js_set identification ''domain'' domain else identification);
          data = [(''identification'', JObj identification)]
      in case Object_keys_length properties of
           Inl err \<Rightarrow> Inl err
         | Inr n \<Rightarrow> Inr (JObj (if n > 0 then js_set data ''properties'' properties else data)))"

definition upsertAccount :: "env \<Rightarrow> jsval \<Rightarrow> jsval \<Rightarrow> jsval \<Rightarrow> (error + jsval) \<times> request list" where
  "upsertAccount e accountId domain properties =
     (case upsertAccount_data accountId domain properties of
        Inl err \<Rightarrow> (Inl err, [])
      | Inr data \<Rightarrow> request e ''POST'' ''/accounts/upsert'' data)"

definition deleteAccount_data :: "jsval \<Rightarrow> jsval \<Rightarrow> jsval" where
  "deleteAccount_data accountId domain =
     (let identification = [];
          identification =
            (if js_truthy accountId then js_set identification ''accountId'' accountId
             else identification);
          identification =
            (if js_truthy domain then js_set identification ''domain'' domain else identification)
      in JObj [(''identification'', JObj identification)])"

definition deleteAccount :: "env \<Rightarrow> jsval \<Rightarrow> jsval \<Rightarrow> (error + jsval) \<times> request list" where
  "deleteAccount e accountId domain =
     request e ''DELETE'' ''/accounts'' (deleteAccount_data accountId domain)"

text \<open>\<^verbatim>\<open>userIds\<close> is an array: \<^verbatim>\<open>userIds.map\<close> keeps its length and order.\<close>

definition addUsersToAccount_data :: "jsval \<Rightarrow> jsval list \<Rightarrow> jsval" where
  "addUsersToAccount_data accountId userIds =
     JObj [(''identification'', JObj [(''accountId'', accountId)]),
           (''users'',
            JArr (map (\<lambda>userId. JObj [(''identification'', JObj [(''userId'', userId)])]) userIds))]"

definition addUsersToAccount :: "env \<Rightarrow> jsval \<Rightarrow> jsval list \<Rightarrow> (error + jsval) \<times> request list" where
  "addUsersToAccount e accountId userIds =
     request e ''POST'' ''/accounts/users/add'' (addUsersToAccount_data accountId userIds)"

definition removeUsersFromAccount_data :: "jsval \<Rightarrow> jsval list \<Rightarrow> jsval" where
  "removeUsersFromAccount_data accountId userIds =
     JObj [(''identification'', JObj [(''accountId'', accountId)]),
           (''users'',
            JArr (map (\<lambda>userId. JObj [(''identification'', JObj [(''userId'', userId)])]) userIds))]"

definition removeUsersFromAccount :: "env \<Rightarrow> jsval \<Rightarrow> jsval list \<Rightarrow> (error + jsval) \<times> request list" where
  "removeUsersFromAccount e accountId userIds =
     request e ''POST'' ''/accounts/users/remove''
       (removeUsersFromAccount_data accountId userIds)"

definition trackEvent_data :: "jsval \<Rightarrow> jsval \<Rightarrow> jsval \<Rightarrow> jsval \<Rightarrow> error + jsval" where
  "trackEvent_data eventName userId accountId metadata0 =
     (let metadata = (if metadata0 = Undefined then JObj [] else metadata0);
          data = [(''name'', eventName)];
          data = (if js_truthy userId then js_set data ''userId'' userId else data);
          data = (if js_truthy accountId then js_set data ''accountId'' accountId else data)
      in case Object_keys_length metadata of
           Inl err \<Rightarrow> Inl err
         | Inr n \<Rightarrow> Inr (JObj (if n > 0 then js_set data ''metadata'' metadata else data)))"

definition trackEvent :: "env \<Rightarrow> jsval \<Rightarrow> jsval \<Rightarrow> jsval \<Rightarrow> jsval \<Rightarrow> (error + jsval) \<times> request list" where
  "trackEvent e eventName userId accountId metadata =
     (case trackEvent_data eventName userId accountId metadata of
        Inl err \<Rightarrow> (Inl err, [])
      | Inr data \<Rightarrow> request e ''POST'' ''/track'' data)"

definition getEvents :: "env \<Rightarrow> (error + jsval) \<times> request list" where
  "getEvents e = request e ''GET'' ''/events'' Undefined"

definition getUserProperties :: "env \<Rightarrow> (error + jsval) \<times> request list" where
  "getUserProperties e = request e ''GET'' ''/properties/users'' Undefined"

definition getAccountProperties :: "env \<Rightarrow> (error + jsval) \<times> request list" where
  "getAccountProperties e = request e ''GET'' ''/properties/accounts'' Undefined"

definition getUserSegments :: "env \<Rightarrow> (error + jsval) \<times> request list" where
  "getUserSegments e = request e ''GET'' ''/segments/users'' Undefined"

definition getAccountSegments :: "env \<Rightarrow> (error + jsval) \<times> request list" where
  "getAccountSegments e = request e ''GET'' ''/segments/accounts'' Undefined"

definition linkUserToAccount_data :: "jsval \<Rightarrow> jsval \<Rightarrow> jsval" where
  "linkUserToAccount_data userId accountId =
     JObj [(''user'', JObj [(''identification'', JObj [(''userId'', userId)])]),
           (''account'', JObj [(''identification'', JObj [(''accountId'', accountId)])])]"

definition linkUserToAccount :: "env \<Rightarrow> jsval \<Rightarrow> jsval \<Rightarrow> (error + jsval) \<times> request list" where
  "linkUserToAccount e userId accountId =
     request e ''POST'' ''/link'' (linkUserToAccount_data userId accountId)"

definition validateApiKey :: "env \<Rightarrow> (error + jsval) \<times> request list" where
  "validateApiKey e = request e ''GET'' ''/validate'' Undefined"

definition getTrackingSnippet :: "env \<Rightarrow> (error + jsval) \<times> request list" where
  "getTrackingSnippet e = request e ''GET'' ''/tracking/snippet'' Undefined"

text \<open>The call of an operation.\<close>

fun invoke :: "env \<Rightarrow> operation \<Rightarrow> (error + jsval) \<times> request list" where
  "invoke e (UpsertUser userId email properties) = upsertUser e userId email properties"
| "invoke e (DeleteUser userId email) = deleteUser e userId email"
| "invoke e (UpsertAccount accountId domain properties) = upsertAccount e accountId domain properties"
| "invoke e (DeleteAccount accountId domain) = deleteAccount e accountId domain"
| "invoke e (AddUsersToAccount accountId userIds) = addUsersToAccount e accountId userIds"
| "invoke e (RemoveUsersFromAccount accountId userIds) = removeUsersFromAccount e accountId userIds"
| "invoke e (TrackEvent eventName userId accountId metadata) =
     trackEvent e eventName userId accountId metadata"
| "invoke e GetEvents = getEvents e"
| "invoke e GetUserProperties = getUserProperties e"
| "invoke e GetAccountProperties = getAccountProperties e"
| "invoke e GetUserSegments = getUserSegments e"
| "invoke e GetAccountSegments = getAccountSegments e"
| "invoke e (LinkUserToAccount userId accountId) = linkUserToAccount e userId accountId"
| "invoke e ValidateApiKey = validateApiKey e"
| "invoke e GetTrackingSnippet = getTrackingSnippet e"

section \<open>The Presenter: the command actions (index.js)\<close>

text \<open>
  A command's action is modelled by the trace of what it does, in order: the messages it
  prints through \<^verbatim>\<open>printError\<close> and \<^verbatim>\<open>console.log\<close>, the Mediator operation it
  calls, the requests handed to the HTTP client, and \<^verbatim>\<open>process.exit\<close>, which ends the
  trace. Colours and the spinner are left out.
\<close>

datatype event =
    PrintError string
  | PrintLine string
  | Exit nat
  | Call operation
  | Dispatch request

fun exited :: "event list \<Rightarrow> bool" where
  "exited [] = False"
| "exited (Exit n # es) = True"
| "exited (ev # es) = exited es"

text \<open>Sequencing of two statements: nothing runs after \<^verbatim>\<open>process.exit\<close>.\<close>

definition seq :: "event list \<Rightarrow> event list \<Rightarrow> event list" where
  "seq xs ys = (if exited xs then xs else xs @ ys)"

definition requireAuth :: "env \<Rightarrow> event list" where
  "requireAuth e =
     (if \<not> configured e then
        [PrintError ''API key not configured.'',
         PrintLine (CHR 0x0A # ''Run the following to configure:''),
         PrintLine ''  journy config set --api-key YOUR_API_KEY'',
         PrintLine (CHR 0x0A # ''Get your API key at: https://system.journy.io''),
         Exit 1]
      else [])"

text \<open>\<^verbatim>\<open>propertiesStr\<close> is the value of an option of the command line: a string, or
  \<^verbatim>\<open>undefined\<close> (\<open>None\<close>) when the option is not given.\<close>

definition parseProperties :: "env \<Rightarrow> string option \<Rightarrow> error + jsval" where
  \<open>parseProperties e propertiesStr =
     (case propertiesStr of
        None \<Rightarrow> Inr (JObj [])
      | Some s \<Rightarrow>
          (if s = [] then Inr (JObj [])
           else (case JSON_parse e s of
                   Some v \<Rightarrow> Inr v
                 | None \<Rightarrow>
                     Inl (Error (''Properties must be valid JSON. Example: \'{"name":"John","plan":"Pro"}''
                                  @ [CHR 0x27])))))\<close>

text \<open>An option of the command line as the argument of an operation.\<close>

fun js_option :: "string option \<Rightarrow> jsval" where
  "js_option None = Undefined"
| "js_option (Some s) = JStr s"

text \<open>
  The \<^verbatim>\<open>try\<close> block around the call of an operation and the rendering of its payload,
  with its \<^verbatim>\<open>catch\<close>: an error of either is printed and the process exits with status 1.
\<close>

definition rendered :: "string list \<times> error option \<Rightarrow> event list" where
  "rendered r =
     map PrintLine (fst r)
     @ (case snd r of None \<Rightarrow> [] | Some err \<Rightarrow> [PrintError (message err), Exit 1])"

definition run_operation :: "env \<Rightarrow> operation \<Rightarrow> event list" where
  "run_operation e op =
     (case invoke e op of
        (Inl err, reqs) \<Rightarrow> Call op # map Dispatch reqs @ [PrintError (message err), Exit 1]
      | (Inr d, reqs) \<Rightarrow> Call op # map Dispatch reqs @ rendered (render e op d))"

definition user_upsert_action :: "env \<Rightarrow> string \<Rightarrow> string option \<Rightarrow> string option \<Rightarrow> event list" where
  "user_upsert_action e userId email properties =
     seq (requireAuth e)
       (case parseProperties e properties of
          Inl err \<Rightarrow> [PrintError (message err), Exit 1]
        | Inr props \<Rightarrow> run_operation e (UpsertUser (JStr userId) (js_option email) props))"

definition user_delete_action :: "env \<Rightarrow> string \<Rightarrow> string option \<Rightarrow> event list" where
  "user_delete_action e userId email =
     seq (requireAuth e) (run_operation e (DeleteUser (JStr userId) (js_option email)))"

definition account_upsert_action :: "env \<Rightarrow> string \<Rightarrow> string option \<Rightarrow> string option \<Rightarrow> event list" where
  "account_upsert_action e accountId domain properties =
     seq (requireAuth e)
       (case parseProperties e properties of
          Inl err \<Rightarrow> [PrintError (message err), Exit 1]
        | Inr props \<Rightarrow> run_operation e (UpsertAccount (JStr accountId) (js_option domain) props))"

definition account_delete_action :: "env \<Rightarrow> string \<Rightarrow> string option \<Rightarrow> event list" where
  "account_delete_action e accountId domain =
     seq (requireAuth e) (run_operation e (DeleteAccount (JStr accountId) (js_option domain)))"

definition account_add_users_action :: "env \<Rightarrow> string \<Rightarrow> string list \<Rightarrow> event list" where
  "account_add_users_action e accountId userIds =
     seq (requireAuth e)
       (if length userIds > 100 then
          [PrintError ''Maximum 100 users can be added at once'', Exit 1]
        else run_operation e (AddUsersToAccount (JStr accountId) (map JStr userIds)))"

definition account_remove_users_action :: "env \<Rightarrow> string \<Rightarrow> string list \<Rightarrow> event list" where
  "account_remove_users_action e accountId userIds =
     seq (requireAuth e)
       (if length userIds > 100 then
          [PrintError ''Maximum 100 users can be removed at once'', Exit 1]
        else run_operation e (RemoveUsersFromAccount (JStr accountId) (map JStr userIds)))"

definition event_track_action ::
  "env \<Rightarrow> string \<Rightarrow> string option \<Rightarrow> string option \<Rightarrow> string option \<Rightarrow> event list" where
  "event_track_action e eventName userId accountId metadata =
     seq (requireAuth e)
       (if \<not> js_truthy (js_option userId) \<and> \<not> js_truthy (js_option accountId) then
          [PrintError ''Either --user-id or --account-id (or both) must be provided'', Exit 1]
        else
          (case parseProperties e metadata of
             Inl err \<Rightarrow> [PrintError (message err), Exit 1]
           | Inr md \<Rightarrow>
               run_operation e
                 (TrackEvent (JStr eventName) (js_option userId) (js_option accountId) md)))"

definition event_list_action :: "env \<Rightarrow> event list" where
  "event_list_action e = seq (requireAuth e) (run_operation e GetEvents)"

definition properties_users_action :: "env \<Rightarrow> event list" where
  "properties_users_action e = seq (requireAuth e) (run_operation e GetUserProperties)"

definition properties_accounts_action :: "env \<Rightarrow> event list" where
  "properties_accounts_action e = seq (requireAuth e) (run_operation e GetAccountProperties)"

definition segments_users_action :: "env \<Rightarrow> event list" where
  "segments_users_action e = seq (requireAuth e) (run_operation e GetUserSegments)"

definition segments_accounts_action :: "env \<Rightarrow> event list" where
  "segments_accounts_action e = seq (requireAuth e) (run_operation e GetAccountSegments)"

definition link_action :: "env \<Rightarrow> string \<Rightarrow> string \<Rightarrow> event list" where
  "link_action e userId accountId =
     seq (requireAuth e) (run_operation e (LinkUserToAccount (JStr userId) (JStr accountId)))"

definition validate_action :: "env \<Rightarrow> event list" where
  "validate_action e = seq (requireAuth e) (run_operation e ValidateApiKey)"

definition snippet_action :: "env \<Rightarrow> event list" where
  "snippet_action e = seq (requireAuth e) (run_operation e GetTrackingSnippet)"

text \<open>The commands that reach an operation, as parsed from the command line.\<close>

datatype command =
    UserUpsert string "string option" "string option"
  | UserDelete string "string option"
  | AccountUpsert string "string option" "string option"
  | AccountDelete string "string option"
  | AccountAddUsers string "string list"
  | AccountRemoveUsers string "string list"
  | EventTrack string "string option" "string option" "string option"
  | EventList
  | PropertiesUsers
  | PropertiesAccounts
  | SegmentsUsers
  | SegmentsAccounts
  | Link string string
  | Validate
  | Snippet

fun action :: "env \<Rightarrow> command \<Rightarrow> event list" where
  "action e (UserUpsert userId email properties) = user_upsert_action e userId email properties"
| "action e (UserDelete userId email) = user_delete_action e userId email"
| "action e (AccountUpsert accountId domain properties) =
     account_upsert_action e accountId domain properties"
| "action e (AccountDelete accountId domain) = account_delete_action e accountId domain"
| "action e (AccountAddUsers accountId userIds) = account_add_users_action e accountId userIds"
| "action e (AccountRemoveUsers accountId userIds) =
     account_remove_users_action e accountId userIds"
| "action e (EventTrack eventName userId accountId metadata) =
     event_track_action e eventName userId accountId metadata"
| "action e EventList = event_list_action e"
| "action e PropertiesUsers = properties_users_action e"
| "action e PropertiesAccounts = properties_accounts_action e"
| "action e SegmentsUsers = segments_users_action e"
| "action e SegmentsAccounts = segments_accounts_action e"
| "action e (Link userId accountId) = link_action e userId accountId"
| "action e Validate = validate_action e"
| "action e Snippet = snippet_action e"

text \<open>The requests a trace hands to the HTTP client, and the operations it calls.\<close>

fun dispatched :: "event list \<Rightarrow> request list" where
  "dispatched [] = []"
| "dispatched (Dispatch r # es) = r # dispatched es"
| "dispatched (ev # es) = dispatched es"

fun called :: "event list \<Rightarrow> operation list" where
  "called [] = []"
| "called (Call op # es) = op # called es"
| "called (ev # es) = called es"

section \<open>Vocabulary of the properties\<close>

text \<open>
  The data an operation builds before it calls \<^verbatim>\<open>request\<close> (\<^verbatim>\<open>undefined\<close> for the
  reads, which pass none), the request \<^verbatim>\<open>request\<close> hands to the HTTP client when the
  Credential is there, and what it makes of the client's answer.
\<close>

fun operation_data :: "operation \<Rightarrow> error + jsval" where
  "operation_data (UpsertUser userId email properties) = upsertUser_data userId email properties"
| "operation_data (DeleteUser userId email) = Inr (deleteUser_data userId email)"
| "operation_data (UpsertAccount accountId domain properties) =
     upsertAccount_data accountId domain properties"
| "operation_data (DeleteAccount accountId domain) = Inr (deleteAccount_data accountId domain)"
| "operation_data (AddUsersToAccount accountId userIds) =
     Inr (addUsersToAccount_data accountId userIds)"
| "operation_data (RemoveUsersFromAccount accountId userIds) =
     Inr (removeUsersFromAccount_data accountId userIds)"
| "operation_data (TrackEvent eventName userId accountId metadata) =
     trackEvent_data eventName userId accountId metadata"
| "operation_data (LinkUserToAccount userId accountId) =
     Inr (linkUserToAccount_data userId accountId)"
| "operation_data _ = Inr Undefined"

definition config_of :: "env \<Rightarrow> string \<Rightarrow> string \<Rightarrow> jsval \<Rightarrow> request" where
  "config_of e m p d =
     \<lparr>req_method = m, req_url = BASE_URL @ p,
      req_headers = [(''X-Api-Key'', apiKey e), (''Content-Type'', JStr ''application/json'')],
      req_data = (if js_truthy d then Some d else None)\<rparr>"

definition outcome :: "axios_result \<Rightarrow> error + jsval" where
  "outcome a = (case a of Resolved d \<Rightarrow> Inr d | Rejected r msg \<Rightarrow> Inl (request_catch r msg))"

text \<open>
  The error of \<^verbatim>\<open>getHeaders\<close> for a missing Credential, as it leaves \<^verbatim>\<open>request\<close>:
  the \<^verbatim>\<open>catch\<close> block finds no response on it and wraps its message.
\<close>

definition missing_key_error :: error where
  "missing_key_error =
     RequestFailedError ''API key not configured. Run: journy config set --api-key YOUR_KEY''"

text \<open>The message of \<^verbatim>\<open>parseProperties\<close> for a text that \<^verbatim>\<open>JSON.parse\<close> rejects.\<close>

definition properties_error :: error where
  \<open>properties_error =
     Error (''Properties must be valid JSON. Example: \'{"name":"John","plan":"Pro"}'' @ [CHR 0x27])\<close>



text \<open>
  The names of the operations, and the table of endpoints as the repository's README
  lists it (API Reference).
\<close>

datatype op_name =
    OpUpsertUser | OpDeleteUser | OpUpsertAccount | OpDeleteAccount
  | OpAddUsersToAccount | OpRemoveUsersFromAccount | OpTrackEvent | OpGetEvents
  | OpGetUserProperties | OpGetAccountProperties | OpGetUserSegments | OpGetAccountSegments
  | OpLinkUserToAccount | OpValidateApiKey | OpGetTrackingSnippet

fun name_of :: "operation \<Rightarrow> op_name" where
  "name_of (UpsertUser userId email properties) = OpUpsertUser"
| "name_of (DeleteUser userId email) = OpDeleteUser"
| "name_of (UpsertAccount accountId domain properties) = OpUpsertAccount"
| "name_of (DeleteAccount accountId domain) = OpDeleteAccount"
| "name_of (AddUsersToAccount accountId userIds) = OpAddUsersToAccount"
| "name_of (RemoveUsersFromAccount accountId userIds) = OpRemoveUsersFromAccount"
| "name_of (TrackEvent eventName userId accountId metadata) = OpTrackEvent"
| "name_of GetEvents = OpGetEvents"
| "name_of GetUserProperties = OpGetUserProperties"
| "name_of GetAccountProperties = OpGetAccountProperties"
| "name_of GetUserSegments = OpGetUserSegments"
| "name_of GetAccountSegments = OpGetAccountSegments"
| "name_of (LinkUserToAccount userId accountId) = OpLinkUserToAccount"
| "name_of ValidateApiKey = OpValidateApiKey"
| "name_of GetTrackingSnippet = OpGetTrackingSnippet"

fun endpoint_table :: "op_name \<Rightarrow> string \<times> string" where
  "endpoint_table OpUpsertUser = (''POST'', ''/users/upsert'')"
| "endpoint_table OpDeleteUser = (''DELETE'', ''/users'')"
| "endpoint_table OpUpsertAccount = (''POST'', ''/accounts/upsert'')"
| "endpoint_table OpDeleteAccount = (''DELETE'', ''/accounts'')"
| "endpoint_table OpAddUsersToAccount = (''POST'', ''/accounts/users/add'')"
| "endpoint_table OpRemoveUsersFromAccount = (''POST'', ''/accounts/users/remove'')"
| "endpoint_table OpTrackEvent = (''POST'', ''/track'')"
| "endpoint_table OpGetEvents = (''GET'', ''/events'')"
| "endpoint_table OpGetUserProperties = (''GET'', ''/properties/users'')"
| "endpoint_table OpGetAccountProperties = (''GET'', ''/properties/accounts'')"
| "endpoint_table OpGetUserSegments = (''GET'', ''/segments/users'')"
| "endpoint_table OpGetAccountSegments = (''GET'', ''/segments/accounts'')"
| "endpoint_table OpLinkUserToAccount = (''POST'', ''/link'')"
| "endpoint_table OpValidateApiKey = (''GET'', ''/validate'')"
| "endpoint_table OpGetTrackingSnippet = (''GET'', ''/tracking/snippet'')"

text \<open>
  The verbs as the specification assigns them: GET for the reads, POST for the upserts,
  for tracking, linking, adding and removing users, DELETE for the deletes.
\<close>

definition read_operations :: "op_name list" where
  "read_operations =
     [OpGetEvents, OpGetUserProperties, OpGetAccountProperties, OpGetUserSegments,
      OpGetAccountSegments, OpGetTrackingSnippet, OpValidateApiKey]"

definition post_operations :: "op_name list" where
  "post_operations =
     [OpUpsertUser, OpUpsertAccount, OpTrackEvent, OpLinkUserToAccount, OpAddUsersToAccount,
      OpRemoveUsersFromAccount]"

definition delete_operations :: "op_name list" where
  "delete_operations = [OpDeleteUser, OpDeleteAccount]"

definition spec_verb :: "op_name \<Rightarrow> string option" where
  "spec_verb n =
     (if n \<in> set read_operations then Some ''GET''
      else if n \<in> set post_operations then Some ''POST''
      else if n \<in> set delete_operations then Some ''DELETE''
      else None)"

text \<open>
  Environments for the examples: a Credential (or none), what \<^verbatim>\<open>isConfigured()\<close>
  answers, and the one answer of the HTTP client to every request. Their parser agrees
  with \<^verbatim>\<open>JSON.parse\<close> on the texts the examples use: it reads \<^verbatim>\<open>{}\<close> and rejects the
  empty text and \<^verbatim>\<open>{bad\<close>. Their rendering prints nothing; no example reads what is
  printed after a call.
\<close>

definition example_parse :: "string \<Rightarrow> jsval option" where
  "example_parse s = (if s = ''{}'' then Some (JObj []) else None)"

definition example_env :: "jsval \<Rightarrow> bool \<Rightarrow> axios_result \<Rightarrow> env" where
  "example_env key conf answer =
     \<lparr>apiKey = key, configured = conf, axios = (\<lambda>r. answer), JSON_parse = example_parse,
      render = (\<lambda>op d. ([], None))\<rparr>"

definition rejected_with :: "nat \<Rightarrow> jsval \<Rightarrow> axios_result" where
  "rejected_with st body =
     Rejected (Some \<lparr>resp_status = st, resp_data = body\<rparr>) ''Request failed with status code''"

section \<open>Facts about dispatch\<close>

lemma response_message_None: "response_message None = Undefined"
  by (simp add: response_message_def)

lemma response_message_Some: "response_message (Some resp) = js_get (resp_data resp) ''message''"
  by (simp add: response_message_def)

lemma request_no_key:
  "\<not> js_truthy (apiKey e) \<Longrightarrow> request e m p d = (Inl missing_key_error, [])"
  by (simp add: request_def getHeaders_def request_catch_def response_message_None
      missing_key_error_def Let_def)

lemma request_with_key:
  "js_truthy (apiKey e) \<Longrightarrow>
   request e m p d = (outcome (axios e (config_of e m p d)), [config_of e m p d])"
  by (cases d) (simp_all add: request_def getHeaders_def config_of_def outcome_def Let_def
      split: axios_result.splits)

lemma invoke_eq:
  "invoke e op =
     (case operation_data op of
        Inl err \<Rightarrow> (Inl err, [])
      | Inr d \<Rightarrow> request e (fst (endpoint_table (name_of op))) (snd (endpoint_table (name_of op))) d)"
  by (cases op)
    (simp_all add: upsertUser_def deleteUser_def upsertAccount_def deleteAccount_def
      addUsersToAccount_def removeUsersFromAccount_def trackEvent_def getEvents_def
      getUserProperties_def getAccountProperties_def getUserSegments_def getAccountSegments_def
      linkUserToAccount_def validateApiKey_def getTrackingSnippet_def split: sum.splits)

lemma invoke_no_key:
  "\<not> js_truthy (apiKey e) \<Longrightarrow>
   invoke e op =
     (Inl (case operation_data op of Inl err \<Rightarrow> err | Inr d \<Rightarrow> missing_key_error), [])"
  by (simp add: invoke_eq request_no_key split: sum.splits)

lemma invoke_dispatched:
  assumes "snd (invoke e op) = [r]"
  shows "fst (invoke e op) = outcome (axios e r)"
proof (cases "js_truthy (apiKey e)")
  case True
  with assms show ?thesis
    by (auto simp: invoke_eq request_with_key split: sum.splits)
next
  case False
  with assms show ?thesis
    by (auto simp: invoke_eq request_no_key split: sum.splits)
qed

lemma spec_verb_table: "spec_verb n = Some (fst (endpoint_table n))"
  by (cases n)
    (simp_all add: spec_verb_def read_operations_def post_operations_def delete_operations_def)

section \<open>Facts about traces\<close>

lemma dispatched_append: "dispatched (xs @ ys) = dispatched xs @ dispatched ys"
  by (induction xs rule: dispatched.induct) simp_all

lemma called_append: "called (xs @ ys) = called xs @ called ys"
  by (induction xs rule: called.induct) simp_all

lemma exited_append: "exited (xs @ ys) = (exited xs \<or> exited ys)"
  by (induction xs rule: exited.induct) simp_all

lemma trace_of_requests:
  "dispatched (map Dispatch rs) = rs" "called (map Dispatch rs) = []"
  "exited (map Dispatch rs) = False"
  by (induction rs) simp_all

lemma trace_of_lines:
  "dispatched (map PrintLine ls) = []" "called (map PrintLine ls) = []"
  "exited (map PrintLine ls) = False"
  by (induction ls) simp_all

lemma rendered_trace:
  "dispatched (rendered r) = []" "called (rendered r) = []"
  "exited (rendered r) = (snd r \<noteq> None)"
  by (simp_all add: rendered_def dispatched_append called_append exited_append trace_of_lines
      split: option.splits)

lemma run_operation_trace:
  "dispatched (run_operation e op) = snd (invoke e op)"
  "called (run_operation e op) = [op]"
  "exited (run_operation e op) =
     (case fst (invoke e op) of Inl err \<Rightarrow> True | Inr d \<Rightarrow> snd (render e op d) \<noteq> None)"
  by (simp_all add: run_operation_def dispatched_append called_append exited_append
      trace_of_requests rendered_trace split: prod.splits sum.splits)

lemma requireAuth_trace:
  "dispatched (requireAuth e) = []" "called (requireAuth e) = []"
  "exited (requireAuth e) = (\<not> configured e)"
  by (simp_all add: requireAuth_def)

lemma seq_requireAuth:
  "seq (requireAuth e) ys = (if configured e then ys else requireAuth e)"
  by (simp add: seq_def requireAuth_def)

lemmas action_defs =
  user_upsert_action_def user_delete_action_def account_upsert_action_def
  account_delete_action_def account_add_users_action_def account_remove_users_action_def
  event_track_action_def event_list_action_def properties_users_action_def
  properties_accounts_action_def segments_users_action_def segments_accounts_action_def
  link_action_def validate_action_def snippet_action_def

lemma run_operation_no_key:
  "\<not> js_truthy (apiKey e) \<Longrightarrow>
   dispatched (run_operation e op) = [] \<and> exited (run_operation e op)"
  by (simp add: run_operation_trace invoke_no_key)

lemma action_unconfigured: "\<not> configured e \<Longrightarrow> action e cmd = requireAuth e"
  by (cases cmd) (simp_all add: action_defs seq_requireAuth)

lemma action_no_key:
  assumes "\<not> js_truthy (apiKey e)"
  shows "dispatched (action e cmd) = [] \<and> exited (action e cmd)"
proof (cases "configured e")
  case False
  then show ?thesis
    by (simp add: action_unconfigured requireAuth_trace)
next
  case True
  then show ?thesis
    by (cases cmd)
      (simp_all add: action_defs seq_requireAuth run_operation_no_key [OF assms]
        split: sum.splits)
qed

section \<open>The shape of the request bodies\<close>












lemma example_env_simps:
  "apiKey (example_env key conf answer) = key"
  "configured (example_env key conf answer) = conf"
  "axios (example_env key conf answer) r = answer"
  "JSON_parse (example_env key conf answer) = example_parse"
  by (simp_all add: example_env_def)

section \<open>Request bodies of concrete calls\<close>

text \<open>
  C4: with the Credential present, calling \<^verbatim>\<open>trackEvent("signed_in", "u1")\<close>, with no
  accountId and no metadata, dispatches one request, \<^verbatim>\<open>POST /track\<close>, whose body is
  exactly \<^verbatim>\<open>{ "name": "signed_in", "userId": "u1" }\<close>: two properties, no accountId and no
  metadata. The same body is sent when the caller passes the empty object as metadata, as
  the command \<^verbatim>\<open>event track signed_in --user-id u1\<close> does.
\<close>

theorem trackEvent_signed_in_request:
  assumes "js_truthy (apiKey e)"
  shows "map req_data (snd (trackEvent e (JStr ''signed_in'') (JStr ''u1'') Undefined Undefined))
           = [Some (JObj [(''name'', JStr ''signed_in''), (''userId'', JStr ''u1'')])]
       \<and> map req_data (snd (trackEvent e (JStr ''signed_in'') (JStr ''u1'') Undefined (JObj [])))
           = [Some (JObj [(''name'', JStr ''signed_in''), (''userId'', JStr ''u1'')])]
       \<and> map (\<lambda>r. (req_method r, req_url r))
             (snd (trackEvent e (JStr ''signed_in'') (JStr ''u1'') Undefined Undefined))
           = [(''POST'', ''https://api.journy.io/track'')]
       \<and> trackEvent_data (JStr ''signed_in'') (JStr ''u1'') Undefined Undefined
           = Inr (JObj [(''name'', JStr ''signed_in''), (''userId'', JStr ''u1'')])
       \<and> trackEvent_data (JStr ''signed_in'') (JStr ''u1'') Undefined (JObj [])
           = Inr (JObj [(''name'', JStr ''signed_in''), (''userId'', JStr ''u1'')])
       \<and> (configured e \<longrightarrow>
            map req_data (dispatched (event_track_action e ''signed_in'' (Some ''u1'') None None))
              = [Some (JObj [(''name'', JStr ''signed_in''), (''userId'', JStr ''u1'')])])"
proof -
  have d: "trackEvent_data (JStr ''signed_in'') (JStr ''u1'') Undefined Undefined
             = Inr (JObj [(''name'', JStr ''signed_in''), (''userId'', JStr ''u1'')])"
      "trackEvent_data (JStr ''signed_in'') (JStr ''u1'') Undefined (JObj [])
             = Inr (JObj [(''name'', JStr ''signed_in''), (''userId'', JStr ''u1'')])"
    by (simp_all add: trackEvent_data_def)
  have p: "parseProperties e None = Inr (JObj [])"
    by (simp add: parseProperties_def)
  show ?thesis
    using assms
    by (simp add: d p trackEvent_def request_with_key config_of_def BASE_URL_def
        event_track_action_def seq_requireAuth run_operation_trace)
qed

text \<open>The theorem with the Credential \<^verbatim>\<open>key\<close>: the whole request.\<close>

theorem trackEvent_signed_in_request_witness:
  "js_truthy (apiKey (example_env (JStr ''key'') True (Resolved (JObj []))))
   \<and> snd (trackEvent (example_env (JStr ''key'') True (Resolved (JObj [])))
        (JStr ''signed_in'') (JStr ''u1'') Undefined Undefined)
       = [\<lparr>req_method = ''POST'', req_url = ''https://api.journy.io/track'',
           req_headers = [(''X-Api-Key'', JStr ''key''), (''Content-Type'', JStr ''application/json'')],
           req_data = Some (JObj [(''name'', JStr ''signed_in''), (''userId'', JStr ''u1'')])\<rparr>]
   \<and> map req_data (dispatched (event_track_action (example_env (JStr ''key'') True (Resolved (JObj [])))
        ''signed_in'' (Some ''u1'') None None))
       = [Some (JObj [(''name'', JStr ''signed_in''), (''userId'', JStr ''u1'')])]"
proof -
  let ?e = "example_env (JStr ''key'') True (Resolved (JObj []))"
  have k: "js_truthy (apiKey ?e)" and c: "configured ?e"
    by (simp_all add: example_env_simps)
  have r: "snd (trackEvent ?e (JStr ''signed_in'') (JStr ''u1'') Undefined Undefined)
      = [config_of ?e ''POST'' ''/track'' (JObj [(''name'', JStr ''signed_in''), (''userId'', JStr ''u1'')])]"
    using trackEvent_signed_in_request [OF k] k
    by (simp add: trackEvent_def request_with_key)
  show ?thesis
    using trackEvent_signed_in_request [OF k] k c r
    by (simp add: config_of_def BASE_URL_def example_env_simps)
qed

text \<open>
  C5: with the Credential present, calling
  \<^verbatim>\<open>upsertUser("u1", "a@b.com", {"plan":"Pro"})\<close> dispatches one request,
  \<^verbatim>\<open>POST /users/upsert\<close>, whose body is exactly
  \<^verbatim>\<open>{ "identification": { "userId": "u1", "email": "a@b.com" }, "properties": { "plan": "Pro" } }\<close>.
\<close>

theorem upsertUser_example_request:
  assumes "js_truthy (apiKey e)"
  shows "map req_data
           (snd (upsertUser e (JStr ''u1'') (JStr ''a@b.com'') (JObj [(''plan'', JStr ''Pro'')])))
           = [Some (JObj [(''identification'',
                           JObj [(''userId'', JStr ''u1''), (''email'', JStr ''a@b.com'')]),
                          (''properties'', JObj [(''plan'', JStr ''Pro'')])])]
       \<and> map (\<lambda>r. (req_method r, req_url r))
             (snd (upsertUser e (JStr ''u1'') (JStr ''a@b.com'') (JObj [(''plan'', JStr ''Pro'')])))
           = [(''POST'', ''https://api.journy.io/users/upsert'')]
       \<and> upsertUser_data (JStr ''u1'') (JStr ''a@b.com'') (JObj [(''plan'', JStr ''Pro'')])
           = Inr (JObj [(''identification'',
                         JObj [(''userId'', JStr ''u1''), (''email'', JStr ''a@b.com'')]),
                        (''properties'', JObj [(''plan'', JStr ''Pro'')])])"
proof -
  have d: "upsertUser_data (JStr ''u1'') (JStr ''a@b.com'') (JObj [(''plan'', JStr ''Pro'')])
           = Inr (JObj [(''identification'',
                         JObj [(''userId'', JStr ''u1''), (''email'', JStr ''a@b.com'')]),
                        (''properties'', JObj [(''plan'', JStr ''Pro'')])])"
    by (simp add: upsertUser_data_def)
  show ?thesis
    using assms
    by (simp add: d upsertUser_def request_with_key config_of_def BASE_URL_def)
qed

text \<open>The theorem with the Credential \<^verbatim>\<open>key\<close>: the whole request.\<close>

theorem upsertUser_example_request_witness:
  "js_truthy (apiKey (example_env (JStr ''key'') True (Resolved (JObj []))))
   \<and> snd (upsertUser (example_env (JStr ''key'') True (Resolved (JObj [])))
        (JStr ''u1'') (JStr ''a@b.com'') (JObj [(''plan'', JStr ''Pro'')]))
       = [\<lparr>req_method = ''POST'', req_url = ''https://api.journy.io/users/upsert'',
           req_headers = [(''X-Api-Key'', JStr ''key''), (''Content-Type'', JStr ''application/json'')],
           req_data = Some (JObj [(''identification'',
                                   JObj [(''userId'', JStr ''u1''), (''email'', JStr ''a@b.com'')]),
                                  (''properties'', JObj [(''plan'', JStr ''Pro'')])])\<rparr>]"
proof -
  let ?e = "example_env (JStr ''key'') True (Resolved (JObj []))"
  have k: "js_truthy (apiKey ?e)"
    by (simp add: example_env_simps)
  show ?thesis
    using upsertUser_example_request [OF k] k
    by (simp add: upsertUser_def request_with_key config_of_def BASE_URL_def example_env_simps)
qed

section \<open>Error classification\<close>

text \<open>
  C1 (as amended): for every operation that dispatched a request \<open>r\<close> to which the remote
  endpoint answered with an error response, the \<^verbatim>\<open>catch\<close> block looks at the body's
  message first. A body with a truthy \<^verbatim>\<open>message\<close> is never classified by its status,
  401 and 429 included: when the message converts to a string, as every non-empty string
  message does, the result is an ApiError wrapping it; when it does not convert (an object
  with a property \<^verbatim>\<open>toString\<close> of its own), the conversion throws a TypeError instead.
  Only a response whose body has no truthy message is classified by its status:
  UnauthorizedError for 401, RateLimitedError for 429, RequestFailedError with the
  client's message for any other status.
\<close>

theorem error_classification:
  assumes "snd (invoke e op) = [r]"
    and "axios e r = Rejected (Some resp) msg"
  shows "(js_truthy (js_get (resp_data resp) ''message'') \<longrightarrow>
            fst (invoke e op) =
              Inl (case js_String (js_get (resp_data resp) ''message'') of
                     None \<Rightarrow> TypeError ''Cannot convert object to primitive value''
                   | Some m \<Rightarrow> ApiError m))
       \<and> (\<forall>m. js_get (resp_data resp) ''message'' = JStr m \<and> m \<noteq> [] \<longrightarrow>
            fst (invoke e op) = Inl (ApiError m))
       \<and> (\<not> js_truthy (js_get (resp_data resp) ''message'') \<and> resp_status resp = 401 \<longrightarrow>
            fst (invoke e op) = Inl UnauthorizedError)
       \<and> (\<not> js_truthy (js_get (resp_data resp) ''message'') \<and> resp_status resp = 429 \<longrightarrow>
            fst (invoke e op) = Inl RateLimitedError)
       \<and> (\<not> js_truthy (js_get (resp_data resp) ''message'') \<and> resp_status resp \<noteq> 401
            \<and> resp_status resp \<noteq> 429 \<longrightarrow>
            fst (invoke e op) = Inl (RequestFailedError msg))"
  using invoke_dispatched [OF assms(1)] assms(2)
  by (auto simp: outcome_def request_catch_def response_message_Some)

text \<open>
  The theorem at three answers: 401 with an empty body, 429 with no body, and 401 with a
  message.
\<close>

theorem error_classification_witness:
  "fst (invoke (example_env (JStr ''key'') True (rejected_with 401 (JObj []))) ValidateApiKey)
     = Inl UnauthorizedError
   \<and> fst (invoke (example_env (JStr ''key'') True (rejected_with 429 JNull)) GetEvents)
     = Inl RateLimitedError
   \<and> fst (invoke (example_env (JStr ''key'') True
             (rejected_with 401 (JObj [(''message'', JStr ''API key disabled'')]))) ValidateApiKey)
     = Inl (ApiError ''API key disabled'')"
proof -
  let ?a = "example_env (JStr ''key'') True (rejected_with 401 (JObj []))"
  let ?b = "example_env (JStr ''key'') True (rejected_with 429 JNull)"
  let ?c = "example_env (JStr ''key'') True
              (rejected_with 401 (JObj [(''message'', JStr ''API key disabled'')]))"
  have da: "snd (invoke ?a ValidateApiKey) = [config_of ?a ''GET'' ''/validate'' Undefined]"
    by (simp add: validateApiKey_def request_with_key example_env_simps)
  have db: "snd (invoke ?b GetEvents) = [config_of ?b ''GET'' ''/events'' Undefined]"
    by (simp add: getEvents_def request_with_key example_env_simps)
  have dc: "snd (invoke ?c ValidateApiKey) = [config_of ?c ''GET'' ''/validate'' Undefined]"
    by (simp add: validateApiKey_def request_with_key example_env_simps)
  have ra: "axios ?a (config_of ?a ''GET'' ''/validate'' Undefined)
      = Rejected (Some \<lparr>resp_status = 401, resp_data = JObj []\<rparr>) ''Request failed with status code''"
    by (simp add: example_env_simps rejected_with_def)
  have rb: "axios ?b (config_of ?b ''GET'' ''/events'' Undefined)
      = Rejected (Some \<lparr>resp_status = 429, resp_data = JNull\<rparr>) ''Request failed with status code''"
    by (simp add: example_env_simps rejected_with_def)
  have rc: "axios ?c (config_of ?c ''GET'' ''/validate'' Undefined)
      = Rejected (Some \<lparr>resp_status = 401, resp_data = JObj [(''message'', JStr ''API key disabled'')]\<rparr>)
          ''Request failed with status code''"
    by (simp add: example_env_simps rejected_with_def)
  show ?thesis
    using error_classification [OF da ra] error_classification [OF db rb]
      error_classification [OF dc rc]
    by simp
qed

text \<open>
  The claim as first stated, that a 401 is always an UnauthorizedError and a 429 always a
  RateLimitedError, fails when the body has a message: \<^verbatim>\<open>validateApiKey()\<close> answered by
  401 with the body \<^verbatim>\<open>{ "message": "API key disabled" }\<close> throws
  \<^verbatim>\<open>API Error: API key disabled\<close>, and \<^verbatim>\<open>getEvents()\<close> answered by 429 with a
  message throws an \<^verbatim>\<open>API Error\<close> as well.
\<close>

theorem error_classification_counterexample:
  "snd (invoke (example_env (JStr ''key'') True
          (rejected_with 401 (JObj [(''message'', JStr ''API key disabled'')]))) ValidateApiKey)
     = [\<lparr>req_method = ''GET'', req_url = ''https://api.journy.io/validate'',
         req_headers = [(''X-Api-Key'', JStr ''key''), (''Content-Type'', JStr ''application/json'')],
         req_data = None\<rparr>]
   \<and> fst (invoke (example_env (JStr ''key'') True
             (rejected_with 401 (JObj [(''message'', JStr ''API key disabled'')]))) ValidateApiKey)
     = Inl (Error ''API Error: API key disabled'')
   \<and> UnauthorizedError \<noteq> Error ''API Error: API key disabled''
   \<and> fst (invoke (example_env (JStr ''key'') True
             (rejected_with 429 (JObj [(''message'', JStr ''Too many requests'')]))) GetEvents)
     = Inl (Error ''API Error: Too many requests'')
   \<and> RateLimitedError \<noteq> Error ''API Error: Too many requests''"
  by (simp add: validateApiKey_def getEvents_def request_with_key example_env_simps
      rejected_with_def outcome_def request_catch_def response_message_Some ApiError_def
      UnauthorizedError_def RateLimitedError_def config_of_def BASE_URL_def)

section \<open>Optional arguments that are omitted\<close>



section \<open>A missing Credential\<close>

text \<open>
  C3: when the Credential is absent from the Configuration Store (\<^verbatim>\<open>getConfig('apiKey')\<close>
  is \<^verbatim>\<open>undefined\<close>, or any value that is not truthy), every operation of the Mediator
  fails with an error produced locally and hands no request to the HTTP client: the check
  of \<^verbatim>\<open>getHeaders\<close> comes before the call of the client, and its error leaves
  \<^verbatim>\<open>request\<close> with the message
  \<^verbatim>\<open>Request failed: API key not configured. Run: journy config set --api-key YOUR_KEY\<close>
  (an operation whose data cannot be built fails even earlier, with that error). Every
  command of the Presenter then exits without a request, whatever \<^verbatim>\<open>isConfigured()\<close>
  answers; when it answers no, \<^verbatim>\<open>requireAuth\<close> ends the command before any operation
  of the Mediator is called.
\<close>

theorem missing_credential_fails_locally:
  assumes "\<not> js_truthy (apiKey e)"
  shows "invoke e op =
           (Inl (case operation_data op of Inl err \<Rightarrow> err | Inr d \<Rightarrow> missing_key_error), [])
       \<and> dispatched (action e cmd) = []
       \<and> exited (action e cmd)
       \<and> (\<not> configured e \<longrightarrow> action e cmd = requireAuth e \<and> called (action e cmd) = [])"
  using assms
  by (simp add: invoke_no_key action_no_key action_unconfigured requireAuth_trace)

text \<open>
  The theorem with no Credential stored, and with the empty string stored as Credential.
\<close>

theorem missing_credential_fails_locally_witness:
  "\<not> js_truthy (apiKey (example_env Undefined False (Resolved (JObj []))))
   \<and> invoke (example_env Undefined False (Resolved (JObj []))) (UpsertUser (JStr ''u1'') Undefined Undefined)
       = (Inl (Error ''Request failed: API key not configured. Run: journy config set --api-key YOUR_KEY''), [])
   \<and> invoke (example_env Undefined False (Resolved (JObj []))) GetEvents
       = (Inl (Error ''Request failed: API key not configured. Run: journy config set --api-key YOUR_KEY''), [])
   \<and> dispatched (action (example_env Undefined False (Resolved (JObj []))) Validate) = []
   \<and> called (action (example_env Undefined False (Resolved (JObj []))) Validate) = []
   \<and> action (example_env Undefined False (Resolved (JObj []))) Validate
       = [PrintError ''API key not configured.'',
          PrintLine (CHR 0x0A # ''Run the following to configure:''),
          PrintLine ''  journy config set --api-key YOUR_API_KEY'',
          PrintLine (CHR 0x0A # ''Get your API key at: https://system.journy.io''),
          Exit 1]
   \<and> dispatched (action (example_env (JStr []) True (Resolved (JObj []))) (UserDelete ''u1'' None)) = []
   \<and> exited (action (example_env (JStr []) True (Resolved (JObj []))) (UserDelete ''u1'' None))"
proof -
  let ?e = "example_env Undefined False (Resolved (JObj []))"
  let ?f = "example_env (JStr []) True (Resolved (JObj []))"
  have k: "\<not> js_truthy (apiKey ?e)" and c: "\<not> configured ?e"
    by (simp_all add: example_env_simps)
  have k': "\<not> js_truthy (apiKey ?f)"
    by (simp add: example_env_simps)
  have u: "operation_data (UpsertUser (JStr ''u1'') Undefined Undefined)
      = Inr (JObj [(''identification'', JObj [(''userId'', JStr ''u1'')])])"
    by (simp add: upsertUser_data_def)
  show ?thesis
    using missing_credential_fails_locally [OF k, of "UpsertUser (JStr ''u1'') Undefined Undefined" Validate]
      missing_credential_fails_locally [OF k, of GetEvents Validate]
      missing_credential_fails_locally [OF k', of GetEvents "UserDelete ''u1'' None"]
      k c u
    by (simp add: missing_key_error_def RequestFailedError_def requireAuth_def)
qed

section \<open>The bound on the list of users\<close>

text \<open>
  C6: with the Credential configured, the commands \<^verbatim>\<open>account add-users\<close> and
  \<^verbatim>\<open>account remove-users\<close> call the Mediator and dispatch one request for a list of at
  most 100 user ids, a list of exactly 100 included; for a list of 101 or more they print
  the message about the maximum and exit with status 1, before the Mediator is called.
  The Mediator itself checks no bound: \<^verbatim>\<open>addUsersToAccount\<close> and
  \<^verbatim>\<open>removeUsersFromAccount\<close> dispatch their request for a list of any length.
\<close>

theorem user_list_bound:
  assumes "configured e" and "js_truthy (apiKey e)"
  shows "(length userIds \<le> 100 \<longrightarrow>
            called (account_add_users_action e accountId userIds)
              = [AddUsersToAccount (JStr accountId) (map JStr userIds)]
          \<and> dispatched (account_add_users_action e accountId userIds)
              = [config_of e ''POST'' ''/accounts/users/add''
                   (addUsersToAccount_data (JStr accountId) (map JStr userIds))]
          \<and> called (account_remove_users_action e accountId userIds)
              = [RemoveUsersFromAccount (JStr accountId) (map JStr userIds)]
          \<and> dispatched (account_remove_users_action e accountId userIds)
              = [config_of e ''POST'' ''/accounts/users/remove''
                   (removeUsersFromAccount_data (JStr accountId) (map JStr userIds))])
       \<and> (100 < length userIds \<longrightarrow>
            account_add_users_action e accountId userIds
              = [PrintError ''Maximum 100 users can be added at once'', Exit 1]
          \<and> account_remove_users_action e accountId userIds
              = [PrintError ''Maximum 100 users can be removed at once'', Exit 1])
       \<and> snd (addUsersToAccount e a ids)
            = [config_of e ''POST'' ''/accounts/users/add'' (addUsersToAccount_data a ids)]
       \<and> snd (removeUsersFromAccount e a ids)
            = [config_of e ''POST'' ''/accounts/users/remove'' (removeUsersFromAccount_data a ids)]"
  using assms
  by (simp add: account_add_users_action_def account_remove_users_action_def seq_requireAuth
      run_operation_trace addUsersToAccount_def removeUsersFromAccount_def request_with_key)

text \<open>The theorem at lists of 100 and of 101 user ids.\<close>

theorem user_list_bound_witness:
  "configured (example_env (JStr ''key'') True (Resolved (JObj [])))
   \<and> js_truthy (apiKey (example_env (JStr ''key'') True (Resolved (JObj []))))
   \<and> length (replicate 100 ''u'') = 100
   \<and> called (account_add_users_action (example_env (JStr ''key'') True (Resolved (JObj []))) ''acme''
        (replicate 100 ''u''))
       = [AddUsersToAccount (JStr ''acme'') (replicate 100 (JStr ''u''))]
   \<and> length (dispatched (account_add_users_action (example_env (JStr ''key'') True (Resolved (JObj [])))
        ''acme'' (replicate 100 ''u''))) = 1
   \<and> length (dispatched (account_remove_users_action (example_env (JStr ''key'') True (Resolved (JObj [])))
        ''acme'' (replicate 100 ''u''))) = 1
   \<and> account_add_users_action (example_env (JStr ''key'') True (Resolved (JObj []))) ''acme''
        (replicate 101 ''u'')
       = [PrintError ''Maximum 100 users can be added at once'', Exit 1]
   \<and> account_remove_users_action (example_env (JStr ''key'') True (Resolved (JObj []))) ''acme''
        (replicate 101 ''u'')
       = [PrintError ''Maximum 100 users can be removed at once'', Exit 1]
   \<and> length (snd (addUsersToAccount (example_env (JStr ''key'') True (Resolved (JObj []))) (JStr ''acme'')
        (replicate 101 (JStr ''u'')))) = 1"
proof -
  let ?e = "example_env (JStr ''key'') True (Resolved (JObj []))"
  have c: "configured ?e" and k: "js_truthy (apiKey ?e)"
    by (simp_all add: example_env_simps)
  show ?thesis
    using user_list_bound [OF c k, of "replicate 100 ''u''" "''acme''" "JStr ''acme''"
        "replicate 101 (JStr ''u'')"]
      user_list_bound [OF c k, of "replicate 101 ''u''" "''acme''"] c k
    by simp
qed

section \<open>Malformed JSON in an option\<close>

text \<open>
  C7 (as amended): for every non-empty string given to \<^verbatim>\<open>--properties\<close> or
  \<^verbatim>\<open>--metadata\<close> that \<^verbatim>\<open>JSON.parse\<close> rejects, \<^verbatim>\<open>parseProperties\<close> fails with the
  message that shows the expected shape,
  \<^verbatim>\<open>Properties must be valid JSON. Example: '{"name":"John","plan":"Pro"}'\<close>; the commands
  \<^verbatim>\<open>user upsert\<close>, \<^verbatim>\<open>account upsert\<close> and \<^verbatim>\<open>event track\<close> call no operation of the
  Mediator and dispatch no request, and (once past their earlier checks) print that
  message and exit with status 1.
\<close>

theorem malformed_json_rejected:
  assumes "s \<noteq> []" and "JSON_parse e s = None"
  shows "parseProperties e (Some s) = Inl properties_error
       \<and> called (user_upsert_action e userId email (Some s)) = []
       \<and> dispatched (user_upsert_action e userId email (Some s)) = []
       \<and> called (account_upsert_action e accountId domain (Some s)) = []
       \<and> dispatched (account_upsert_action e accountId domain (Some s)) = []
       \<and> called (event_track_action e eventName uid aid (Some s)) = []
       \<and> dispatched (event_track_action e eventName uid aid (Some s)) = []
       \<and> (configured e \<longrightarrow>
            user_upsert_action e userId email (Some s)
              = [PrintError (message properties_error), Exit 1]
          \<and> account_upsert_action e accountId domain (Some s)
              = [PrintError (message properties_error), Exit 1])
       \<and> (configured e \<and> (js_truthy (js_option uid) \<or> js_truthy (js_option aid)) \<longrightarrow>
            event_track_action e eventName uid aid (Some s)
              = [PrintError (message properties_error), Exit 1])"
proof -
  have p: "parseProperties e (Some s) = Inl properties_error"
    using assms by (simp add: parseProperties_def properties_error_def)
  show ?thesis
    by (simp add: p user_upsert_action_def account_upsert_action_def event_track_action_def
        seq_requireAuth requireAuth_trace)
qed

text \<open>The theorem at the text \<^verbatim>\<open>{bad\<close>.\<close>

theorem malformed_json_rejected_witness:
  \<open>''{bad'' \<noteq> []
   \<and> JSON_parse (example_env (JStr ''key'') True (Resolved (JObj []))) ''{bad'' = None
   \<and> parseProperties (example_env (JStr ''key'') True (Resolved (JObj []))) (Some ''{bad'')
       = Inl (Error (''Properties must be valid JSON. Example: \'{"name":"John","plan":"Pro"}'' @ [CHR 0x27]))
   \<and> user_upsert_action (example_env (JStr ''key'') True (Resolved (JObj []))) ''u1'' None (Some ''{bad'')
       = [PrintError (''Properties must be valid JSON. Example: \'{"name":"John","plan":"Pro"}'' @ [CHR 0x27]),
          Exit 1]
   \<and> dispatched (user_upsert_action (example_env (JStr ''key'') True (Resolved (JObj []))) ''u1'' None
        (Some ''{bad'')) = []
   \<and> event_track_action (example_env (JStr ''key'') True (Resolved (JObj []))) ''signed_in'' (Some ''u1'')
        None (Some ''{bad'')
       = [PrintError (''Properties must be valid JSON. Example: \'{"name":"John","plan":"Pro"}'' @ [CHR 0x27]),
          Exit 1]\<close>
proof -
  let ?e = "example_env (JStr ''key'') True (Resolved (JObj []))"
  have n: "''{bad'' \<noteq> []" by simp
  have j: "JSON_parse ?e ''{bad'' = None"
    by (simp add: example_env_simps example_parse_def)
  have c: "configured ?e" by (simp add: example_env_simps)
  show ?thesis
    using malformed_json_rejected [OF n j, of "''u1''" None _ _ "''signed_in''" "Some ''u1''" None] j c
    by (simp add: properties_error_def)
qed

text \<open>
  The claim as first stated, for every string that is not valid JSON, fails at the empty
  string, which \<^verbatim>\<open>JSON.parse\<close> rejects: \<^verbatim>\<open>parseProperties\<close> tests
  \<^verbatim>\<open>!propertiesStr\<close> first and returns the empty object without parsing, so
  \<^verbatim>\<open>journy user upsert u1 --properties ""\<close> calls \<^verbatim>\<open>upsertUser\<close> and a request is
  dispatched.
\<close>

theorem malformed_json_counterexample:
  "JSON_parse (example_env (JStr ''key'') True (Resolved (JObj []))) [] = None
   \<and> parseProperties (example_env (JStr ''key'') True (Resolved (JObj []))) (Some []) = Inr (JObj [])
   \<and> called (user_upsert_action (example_env (JStr ''key'') True (Resolved (JObj []))) ''u1'' None (Some []))
       = [UpsertUser (JStr ''u1'') Undefined (JObj [])]
   \<and> dispatched (user_upsert_action (example_env (JStr ''key'') True (Resolved (JObj []))) ''u1'' None
        (Some []))
       = [\<lparr>req_method = ''POST'', req_url = ''https://api.journy.io/users/upsert'',
           req_headers = [(''X-Api-Key'', JStr ''key''), (''Content-Type'', JStr ''application/json'')],
           req_data = Some (JObj [(''identification'', JObj [(''userId'', JStr ''u1'')])])\<rparr>]"
  by (simp add: example_env_simps example_parse_def parseProperties_def user_upsert_action_def
      seq_requireAuth run_operation_trace upsertUser_def upsertUser_data_def request_with_key
      config_of_def BASE_URL_def)

section \<open>Methods and paths\<close>

text \<open>
  C8: the method and the URL of the request an operation dispatches are those of a fixed
  table, looked up by the operation's name alone: they depend neither on the arguments nor
  on the environment. A request is dispatched exactly when the Credential is there and the
  data could be built. The verbs of the table are those the specification assigns: GET for
  the seven reads, POST for the upserts, trackEvent, linkUserToAccount, addUsersToAccount
  and removeUsersFromAccount, DELETE for deleteUser and deleteAccount.
\<close>

theorem endpoint_table_static:
  "map (\<lambda>r. (req_method r, req_url r)) (snd (invoke e op)) =
     (if js_truthy (apiKey e) \<and> \<not> isl (operation_data op)
      then [(fst (endpoint_table (name_of op)), BASE_URL @ snd (endpoint_table (name_of op)))]
      else [])
   \<and> spec_verb (name_of op) = Some (fst (endpoint_table (name_of op)))"
proof (cases "js_truthy (apiKey e)")
  case True
  then show ?thesis
    by (simp add: invoke_eq request_with_key config_of_def spec_verb_table split: sum.splits)
next
  case False
  then show ?thesis
    by (simp add: invoke_eq request_no_key spec_verb_table split: sum.splits)
qed

section \<open>Deleting a user without an identification\<close>

text \<open>
  C9 (as amended): \<^verbatim>\<open>deleteUser\<close> does not check its arguments. A call in which neither
  userId nor email is supplied (or both are not truthy) builds the body
  \<^verbatim>\<open>{ identification: {} }\<close> and, when the Credential is present, is dispatched as
  \<^verbatim>\<open>DELETE /users\<close>; it fails before dispatch only when the Credential is absent.
\<close>

theorem deleteUser_unchecked:
  assumes "\<not> js_truthy userId" and "\<not> js_truthy email"
  shows "deleteUser_data userId email = JObj [(''identification'', JObj [])]
       \<and> (js_truthy (apiKey e) \<longrightarrow>
            deleteUser e userId email
              = (outcome (axios e (config_of e ''DELETE'' ''/users'' (JObj [(''identification'', JObj [])]))),
                 [config_of e ''DELETE'' ''/users'' (JObj [(''identification'', JObj [])])]))
       \<and> (\<not> js_truthy (apiKey e) \<longrightarrow> deleteUser e userId email = (Inl missing_key_error, []))"
  using assms
  by (simp add: deleteUser_def deleteUser_data_def request_with_key request_no_key)

text \<open>The theorem at \<^verbatim>\<open>deleteUser()\<close>, with and without a Credential.\<close>

theorem deleteUser_unchecked_witness:
  "\<not> js_truthy Undefined
   \<and> deleteUser_data Undefined Undefined = JObj [(''identification'', JObj [])]
   \<and> length (snd (deleteUser (example_env (JStr ''key'') True (Resolved (JObj []))) Undefined Undefined)) = 1
   \<and> deleteUser (example_env Undefined False (Resolved (JObj []))) Undefined Undefined
       = (Inl (Error ''Request failed: API key not configured. Run: journy config set --api-key YOUR_KEY''), [])"
proof -
  have u: "\<not> js_truthy Undefined" by simp
  show ?thesis
    using deleteUser_unchecked [OF u u, of "example_env (JStr ''key'') True (Resolved (JObj []))"]
      deleteUser_unchecked [OF u u, of "example_env Undefined False (Resolved (JObj []))"]
    by (simp add: example_env_simps missing_key_error_def RequestFailedError_def)
qed

text \<open>
  The claim as first stated, that such a call fails before dispatch, is false:
  \<^verbatim>\<open>deleteUser()\<close> with the Credential \<^verbatim>\<open>key\<close> hands the HTTP client a DELETE request
  with an empty identification, and returns the endpoint's payload.
\<close>

theorem deleteUser_counterexample:
  "deleteUser (example_env (JStr ''key'') True (Resolved (JObj []))) Undefined Undefined
     = (Inr (JObj []),
        [\<lparr>req_method = ''DELETE'', req_url = ''https://api.journy.io/users'',
          req_headers = [(''X-Api-Key'', JStr ''key''), (''Content-Type'', JStr ''application/json'')],
          req_data = Some (JObj [(''identification'', JObj [])])\<rparr>])"
  by (simp add: deleteUser_def deleteUser_data_def request_with_key example_env_simps
      config_of_def outcome_def BASE_URL_def)

section \<open>Adding and removing users\<close>

text \<open>
  C10: for every accountId and every list userIds, \<^verbatim>\<open>addUsersToAccount\<close> and
  \<^verbatim>\<open>removeUsersFromAccount\<close> build the same body,
  \<^verbatim>\<open>{ identification: { accountId }, users: [...] }\<close>, where \<^verbatim>\<open>users\<close> has the length and the
  order of userIds and each element is \<^verbatim>\<open>{ identification: { userId } }\<close>. The requests of
  the two operations have the same method, headers and data, and differ in the URL only:
  \<^verbatim>\<open>/accounts/users/add\<close> against \<^verbatim>\<open>/accounts/users/remove\<close>.
\<close>

theorem add_remove_same_body:
  "addUsersToAccount_data accountId userIds = removeUsersFromAccount_data accountId userIds
   \<and> (\<exists>users. addUsersToAccount_data accountId userIds
          = JObj [(''identification'', JObj [(''accountId'', accountId)]), (''users'', JArr users)]
        \<and> length users = length userIds
        \<and> list_all2 (\<lambda>userId u. u = JObj [(''identification'', JObj [(''userId'', userId)])])
             userIds users)
   \<and> map (\<lambda>r. (req_method r, req_headers r, req_data r)) (snd (addUsersToAccount e accountId userIds))
       = map (\<lambda>r. (req_method r, req_headers r, req_data r))
           (snd (removeUsersFromAccount e accountId userIds))
   \<and> map req_url (snd (addUsersToAccount e accountId userIds))
       = (if js_truthy (apiKey e) then [BASE_URL @ ''/accounts/users/add''] else [])
   \<and> map req_url (snd (removeUsersFromAccount e accountId userIds))
       = (if js_truthy (apiKey e) then [BASE_URL @ ''/accounts/users/remove''] else [])"
proof -
  have shape: "list_all2 (\<lambda>userId u. u = JObj [(''identification'', JObj [(''userId'', userId)])])
      userIds (map (\<lambda>userId. JObj [(''identification'', JObj [(''userId'', userId)])]) userIds)"
    by (simp add: list_all2_conv_all_nth)
  have body: "\<exists>users. addUsersToAccount_data accountId userIds
          = JObj [(''identification'', JObj [(''accountId'', accountId)]), (''users'', JArr users)]
        \<and> length users = length userIds
        \<and> list_all2 (\<lambda>userId u. u = JObj [(''identification'', JObj [(''userId'', userId)])])
             userIds users"
    unfolding addUsersToAccount_data_def using shape
    by (intro exI conjI) (rule refl, simp, assumption)
  have same: "addUsersToAccount_data accountId userIds = removeUsersFromAccount_data accountId userIds"
    by (simp add: addUsersToAccount_data_def removeUsersFromAccount_data_def)
  show ?thesis
  proof (cases "js_truthy (apiKey e)")
    case True
    then show ?thesis using body same
      by (simp add: addUsersToAccount_def removeUsersFromAccount_def request_with_key config_of_def)
  next
    case False
    then show ?thesis using body same
      by (simp add: addUsersToAccount_def removeUsersFromAccount_def request_no_key)
  qed
qed

end
